theory Spec2Isabelle
  imports Main "HOL-Library.AList"
begin

section \<open>Shared message vocabulary\<close>

text \<open>
  Tab identifiers are the integers the platform hands out; a \<open>Port\<close> is the handle
  of one \<open>runtime.Port\<close> object, compared by identity.
\<close>

type_synonym tabId = nat
type_synonym Port = nat

text \<open>
  A message from a tab to the background: \<open>{ message: ..., finalState: ... }\<close>.
  The handlers only test \<open>finalState\<close> for truthiness, so the field is a
  boolean; a message without the field has it \<open>False\<close>.
\<close>

record msg =
  message :: string
  finalState :: bool

text \<open>
  A command from the background to a tab: \<open>{ action: ..., muted: ... }\<close>.
  The field \<open>req_muted\<close> is the \<open>muted\<close> property of the object.
\<close>

record request =
  action :: string
  req_muted :: bool

section \<open>The background service worker (js/background.js)\<close>

subsection \<open>State and effects\<close>

record mute_state =
  isMuted :: bool
  hasMeetTab :: bool

text \<open>The global badge of \<open>chrome.action\<close>: text, background colour, tooltip.\<close>

record badge =
  badgeText :: string
  badgeColor :: string
  title :: string

text \<open>The two functions the background passes to \<open>setTimeout\<close>.\<close>

datatype callback = ClearWarning | VerificationCheck

text \<open>
  Every call the background makes on the platform is logged, in order. A
  \<open>postMessage\<close> that throws is caught by the loop of
  \<open>sendMessageToContentScript\<close> and logged with \<open>console.error\<close>
  (\<open>PostMessageThrew\<close>); a rejected \<open>chrome.tabs.sendMessage\<close> or
  \<open>chrome.tabs.query\<close> is logged by its \<open>catch\<close> handler
  (\<open>TabsSendMessageError\<close>, \<open>TabsQueryError\<close>).
\<close>

datatype effect =
    SetGlobalBadge string string string
  | SetBadgeBackgroundColor string
  | SetTabTitle tabId string
  | StorageSet bool
  | PostMessage tabId Port request
  | PostMessageThrew tabId Port
  | TabsQuery string
  | TabsSendMessage tabId request
  | TabsSendMessageError tabId
  | TabsQueryError
  | NoTabsFound
  | SendResponse
  | SetTimeout callback nat

text \<open>
  \<open>activeMeetTabs\<close> is a JavaScript \<open>Map\<close>: an association list in insertion
  order, where \<open>set\<close> on a present key replaces the value in place
  (\<open>AList.update\<close>) and \<open>delete\<close> removes the entry (\<open>AList.delete\<close>).
  \<open>storage\<close> is the key \<open>muted\<close> of \<open>chrome.storage.local\<close>, \<open>None\<close>
  when the key is absent. Calls to \<open>chrome.storage\<close> and \<open>chrome.action\<close> are
  taken to succeed, and the two awaited storage calls of \<open>simpleToggleMute\<close>
  complete before another handler runs.
\<close>

record background =
  activeMeetTabs :: "(tabId \<times> Port) list"
  globalMuteState :: mute_state
  storage :: "bool option"
  badge :: badge
  trace :: "effect list"

definition initial :: background where
  "initial =
     \<lparr>activeMeetTabs = [],
      globalMuteState = \<lparr>isMuted = False, hasMeetTab = False\<rparr>,
      storage = None,
      badge = \<lparr>badgeText = [], badgeColor = [], title = []\<rparr>,
      trace = []\<rparr>"

text \<open>JavaScript truthiness of the stored value: \<open>undefined\<close> is falsy.\<close>

fun truthy :: "bool option \<Rightarrow> bool" where
  "truthy None = False"
| "truthy (Some b) = b"

subsection \<open>Badge\<close>

definition setGlobalBadge :: "string \<Rightarrow> string \<Rightarrow> string \<Rightarrow> background \<Rightarrow> background" where
  "setGlobalBadge txt col ttl s =
     s\<lparr>badge := \<lparr>badgeText = txt, badgeColor = col, title = ttl\<rparr>,
       trace := trace s @ [SetGlobalBadge txt col ttl]\<rparr>"

definition updateAllTabsBadge :: "background \<Rightarrow> background" where
  "updateAllTabsBadge s =
     (if hasMeetTab (globalMuteState s)
      then setGlobalBadge
             (if isMuted (globalMuteState s) then ''M'' else ''U'')
             (if isMuted (globalMuteState s) then ''#F44336'' else ''#4CAF50'')
             (if isMuted (globalMuteState s) then ''Meet: Muted'' else ''Meet: Unmuted'')
             s
      else setGlobalBadge [] ''#666666'' ''Disconnected'' s)"

text \<open>
  \<open>updateGlobalMuteState\<close> is defined in the source and called from nowhere.
\<close>

definition updateGlobalMuteState :: "bool \<Rightarrow> background \<Rightarrow> background" where
  "updateGlobalMuteState b s =
     updateAllTabsBadge (s\<lparr>globalMuteState := \<lparr>isMuted = b, hasMeetTab = True\<rparr>\<rparr>)"

subsection \<open>Session registry\<close>

definition tabs_onRemoved :: "tabId \<Rightarrow> background \<Rightarrow> background" where
  "tabs_onRemoved tabId s =
     (if tabId \<in> fst ` set (activeMeetTabs s)
      then (let s1 = s\<lparr>activeMeetTabs := AList.delete tabId (activeMeetTabs s)\<rparr>
            in if length (activeMeetTabs s1) = 0
               then setGlobalBadge [] ''#666666'' ''Disconnected''
                      (s1\<lparr>globalMuteState := (globalMuteState s1)\<lparr>hasMeetTab := False\<rparr>\<rparr>)
               else s1)
      else s)"

definition runtime_onInstalled :: "background \<Rightarrow> background" where
  "runtime_onInstalled s =
     s\<lparr>storage := Some False,
       badge := (badge s)\<lparr>badgeColor := ''#666666''\<rparr>,
       trace := trace s @ [StorageSet False, SetBadgeBackgroundColor ''#666666'']\<rparr>"

definition runtime_onConnect :: "string \<Rightarrow> tabId \<Rightarrow> Port \<Rightarrow> background \<Rightarrow> background" where
  "runtime_onConnect name tabId p s =
     (if name = ''meetmute-connection''
      then s\<lparr>activeMeetTabs := AList.update tabId p (activeMeetTabs s),
             trace := trace s @ [SetTabTitle tabId ''Connected to Meet'']\<rparr>
      else s)"

text \<open>
  The disconnect listener of a port closes over the \<open>tabId\<close> of its connection and
  deletes that key, whether or not it is present.
\<close>

definition port_onDisconnect :: "tabId \<Rightarrow> background \<Rightarrow> background" where
  "port_onDisconnect tabId s =
     (let s1 = s\<lparr>activeMeetTabs := AList.delete tabId (activeMeetTabs s)\<rparr>
      in if length (activeMeetTabs s1) = 0
         then setGlobalBadge [] ''#666666'' ''Disconnected''
                (s1\<lparr>globalMuteState := (globalMuteState s1)\<lparr>hasMeetTab := False\<rparr>\<rparr>)
         else s1)"

definition port_onMessage :: "tabId \<Rightarrow> msg \<Rightarrow> background \<Rightarrow> background" where
  "port_onMessage tabId m s =
     (if message m = ''muted''
      then (if finalState m
            then updateAllTabsBadge
                   (s\<lparr>globalMuteState := \<lparr>isMuted = True, hasMeetTab = True\<rparr>\<rparr>)
            else s)
      else if message m = ''unmuted''
      then (if finalState m
            then updateAllTabsBadge
                   (s\<lparr>globalMuteState := \<lparr>isMuted = False, hasMeetTab = True\<rparr>\<rparr>)
            else s)
      else if message m = ''disconnected''
      then (if length (activeMeetTabs s) \<le> 1
            then updateAllTabsBadge
                   (s\<lparr>globalMuteState := (globalMuteState s)\<lparr>hasMeetTab := False\<rparr>\<rparr>)
            else s)
      else s)"

text \<open>One-shot messages; \<open>sender\<close> is \<open>sender.tab\<close>, \<open>None\<close> when undefined.\<close>

definition runtime_onMessage :: "tabId option \<Rightarrow> msg \<Rightarrow> background \<Rightarrow> background" where
  "runtime_onMessage sender m s =
     (case sender of
        None \<Rightarrow> s
      | Some tabId \<Rightarrow>
          if message m = ''content_script_loaded''
          then s\<lparr>trace := trace s @ [SendResponse]\<rparr>
          else if message m = ''muted'' \<or> message m = ''unmuted''
          then (let s1 = (if finalState m
                          then updateAllTabsBadge
                                 (s\<lparr>globalMuteState :=
                                      \<lparr>isMuted = (message m = ''muted''), hasMeetTab = True\<rparr>\<rparr>)
                          else s)
                in s1\<lparr>trace := trace s1 @ [SendResponse]\<rparr>)
          else s)"

subsection \<open>Broadcast\<close>

text \<open>
  The loop over \<open>activeMeetTabs.entries()\<close>. The only change the body makes to the
  map is to delete the entry it is visiting, so the iterator goes on to every entry
  that was in the map at the start. \<open>throws p\<close> says that \<open>postMessage\<close> on the
  port \<open>p\<close> throws.
\<close>

fun postMessages :: "(Port \<Rightarrow> bool) \<Rightarrow> request \<Rightarrow> (tabId \<times> Port) list \<Rightarrow> background \<Rightarrow> background" where
  "postMessages throws req [] s = s"
| "postMessages throws req ((tabId, p) # rest) s =
     (if throws p
      then postMessages throws req rest
             (s\<lparr>activeMeetTabs := AList.delete tabId (activeMeetTabs s),
                trace := trace s @ [PostMessageThrew tabId p]\<rparr>)
      else postMessages throws req rest
             (s\<lparr>trace := trace s @ [PostMessage tabId p req]\<rparr>))"

definition sendMessageToContentScript :: "(Port \<Rightarrow> bool) \<Rightarrow> request \<Rightarrow> background \<Rightarrow> background" where
  "sendMessageToContentScript throws req s =
     (if length (activeMeetTabs s) > 0
      then postMessages throws req (activeMeetTabs s) s
      else s\<lparr>trace := trace s @ [TabsQuery ''https://meet.google.com/*'']\<rparr>)"

text \<open>
  The continuation of the fallback \<open>chrome.tabs.query\<close>: \<open>result\<close> is the list
  of tabs the query resolved with, \<open>None\<close> when it rejected. The \<open>forEach\<close>
  starts one \<open>chrome.tabs.sendMessage\<close> per tab; a send that rejects runs its own
  \<open>catch\<close> handler later, which logs the error for that tab.
\<close>

fun tabsSendEach :: "request \<Rightarrow> tabId list \<Rightarrow> background \<Rightarrow> background" where
  "tabsSendEach req [] s = s"
| "tabsSendEach req (t # ts) s =
     tabsSendEach req ts (s\<lparr>trace := trace s @ [TabsSendMessage t req]\<rparr>)"

definition tabsQueryThen :: "request \<Rightarrow> tabId list option \<Rightarrow> background \<Rightarrow> background" where
  "tabsQueryThen req result s =
     (case result of
        None \<Rightarrow> s\<lparr>trace := trace s @ [TabsQueryError]\<rparr>
      | Some tabs \<Rightarrow>
          if length tabs = 0 then s\<lparr>trace := trace s @ [NoTabsFound]\<rparr>
          else tabsSendEach req tabs s)"

definition tabsSendMessage_catch :: "tabId \<Rightarrow> background \<Rightarrow> background" where
  "tabsSendMessage_catch t s = s\<lparr>trace := trace s @ [TabsSendMessageError t]\<rparr>"

subsection \<open>Toggle sequence\<close>

definition simpleToggleMute :: "(Port \<Rightarrow> bool) \<Rightarrow> bool \<Rightarrow> background \<Rightarrow> background" where
  "simpleToggleMute throws fromIconClick s =
     (let newMutedState = \<not> truthy (storage s);
          s1 = s\<lparr>storage := Some newMutedState,
                 trace := trace s @ [StorageSet newMutedState]\<rparr>;
          s2 = (if \<not> fromIconClick
                then (if newMutedState
                      then setGlobalBadge ''M'' ''#F44336'' ''Meet: Muted'' s1
                      else setGlobalBadge ''U'' ''#4CAF50'' ''Meet: Unmuted'' s1)
                else s1);
          s3 = sendMessageToContentScript throws
                 \<lparr>action = ''toggleMute'', req_muted = newMutedState\<rparr> s2;
          verificationDelay = (if fromIconClick then 300 else 500)
      in s3\<lparr>trace := trace s3 @ [SetTimeout VerificationCheck verificationDelay]\<rparr>)"

definition commands_onCommand :: "(Port \<Rightarrow> bool) \<Rightarrow> string \<Rightarrow> background \<Rightarrow> background" where
  "commands_onCommand throws command s =
     (if command = ''toggle_mute'' then simpleToggleMute throws True s else s)"

definition action_onClicked :: "(Port \<Rightarrow> bool) \<Rightarrow> background \<Rightarrow> background" where
  "action_onClicked throws s =
     (if length (activeMeetTabs s) = 0
      then (let s1 = setGlobalBadge ''!'' ''#FFC107'' ''No active Meet tabs'' s
            in s1\<lparr>trace := trace s1 @ [SetTimeout ClearWarning 3000]\<rparr>)
      else simpleToggleMute throws True s)"

text \<open>What a timer does when it fires.\<close>

fun timerFired :: "callback \<Rightarrow> background \<Rightarrow> background" where
  "timerFired ClearWarning s = setGlobalBadge [] ''#666666'' ''Disconnected'' s"
| "timerFired VerificationCheck s =
     (if truthy (storage s)
      then setGlobalBadge ''M'' ''#F44336'' ''Meet: Muted'' s
      else setGlobalBadge ''U'' ''#4CAF50'' ''Meet: Unmuted'' s)"

subsection \<open>Events\<close>

text \<open>
  Everything that can run a handler of the background: the platform's events, a timer
  firing, the fallback query settling and a one-shot send rejecting.
  \<open>TabsQuerySettled\<close> carries the command its continuation closed over and what
  the query resolved with.
\<close>

datatype event =
    TabsOnRemoved tabId
  | RuntimeOnInstalled
  | RuntimeOnConnect string tabId Port
  | PortOnDisconnect tabId
  | PortOnMessage tabId msg
  | RuntimeOnMessage "tabId option" msg
  | CommandsOnCommand string
  | ActionOnClicked
  | TimerFired callback
  | TabsQuerySettled request "tabId list option"
  | TabsSendMessageRejected tabId

fun handle :: "(Port \<Rightarrow> bool) \<Rightarrow> event \<Rightarrow> background \<Rightarrow> background" where
  "handle throws (TabsOnRemoved t) s = tabs_onRemoved t s"
| "handle throws RuntimeOnInstalled s = runtime_onInstalled s"
| "handle throws (RuntimeOnConnect name t p) s = runtime_onConnect name t p s"
| "handle throws (PortOnDisconnect t) s = port_onDisconnect t s"
| "handle throws (PortOnMessage t m) s = port_onMessage t m s"
| "handle throws (RuntimeOnMessage sender m) s = runtime_onMessage sender m s"
| "handle throws (CommandsOnCommand c) s = commands_onCommand throws c s"
| "handle throws ActionOnClicked s = action_onClicked throws s"
| "handle throws (TimerFired cb) s = timerFired cb s"
| "handle throws (TabsQuerySettled req result) s = tabsQueryThen req result s"
| "handle throws (TabsSendMessageRejected t) s = tabsSendMessage_catch t s"

text \<open>
  The events that carry a confirmed report: \<open>muted\<close> or \<open>unmuted\<close> with
  \<open>finalState\<close> set, over a channel or as a one-shot message from a tab.
\<close>

fun confirmedReport :: "event \<Rightarrow> bool" where
  "confirmedReport (PortOnMessage t m) =
     (finalState m \<and> (message m = ''muted'' \<or> message m = ''unmuted''))"
| "confirmedReport (RuntimeOnMessage sender m) =
     (sender \<noteq> None \<and> finalState m \<and> (message m = ''muted'' \<or> message m = ''unmuted''))"
| "confirmedReport e = False"

text \<open>
  The operations that register and unregister a session: a content script's channel
  connecting, a tab being removed, a channel disconnecting.
\<close>

datatype registry_op = Register tabId Port | TabRemoved tabId | ChannelDisconnected tabId

fun apply_registry_op :: "registry_op \<Rightarrow> background \<Rightarrow> background" where
  "apply_registry_op (Register t p) s = runtime_onConnect ''meetmute-connection'' t p s"
| "apply_registry_op (TabRemoved t) s = tabs_onRemoved t s"
| "apply_registry_op (ChannelDisconnected t) s = port_onDisconnect t s"

fun run_registry_ops :: "registry_op list \<Rightarrow> background \<Rightarrow> background" where
  "run_registry_ops [] s = s"
| "run_registry_ops (x # xs) s = run_registry_ops xs (apply_registry_op x s)"

text \<open>The effect one pass of the broadcast loop logs for an entry of the map.\<close>

fun postEffect :: "(Port \<Rightarrow> bool) \<Rightarrow> request \<Rightarrow> tabId \<times> Port \<Rightarrow> effect" where
  "postEffect throws req (t, p) = (if throws p then PostMessageThrew t p else PostMessage t p req)"

text \<open>Two states used as concrete inputs: one registered session, preference \<open>false\<close>.\<close>

definition one_session :: background where
  "one_session =
     \<lparr>activeMeetTabs = [(1, 10)],
      globalMuteState = \<lparr>isMuted = True, hasMeetTab = True\<rparr>,
      storage = Some False,
      badge = \<lparr>badgeText = ''M'', badgeColor = ''#F44336'', title = ''Meet: Muted''\<rparr>,
      trace = []\<rparr>"

definition two_sessions :: background where
  "two_sessions = one_session\<lparr>activeMeetTabs := [(1, 10), (2, 20)]\<rparr>"

section \<open>The content script (js/meetmute.js)\<close>

subsection \<open>State and effects\<close>

text \<open>
  What \<open>document.querySelector(MUTE_BUTTON)\<close> finds: \<open>None\<close> when no element
  matches, otherwise the value of the element's \<open>data-is-muted\<close> attribute, which
  the selector requires to be present.
\<close>

type_synonym dom = "string option"

text \<open>
  The functions the content script passes to \<open>setTimeout\<close>. \<open>FinalCheck\<close>
  carries \<open>quickCheckState\<close>, the value its closure captured;
  \<open>WaitForContainerElement\<close> carries the \<open>timeout\<close> counter of
  \<open>waitUntilElementExists\<close> and whether its promise has settled.
\<close>

datatype cs_callback = QuickCheck | FinalCheck bool | WaitForContainerElement nat bool

datatype response = StateResponse string | MuteButtonNotFound | ErrorResponse

datatype cs_effect =
    PortPostMessage msg
  | PortPostMessageThrew msg
  | RuntimeSendMessage msg
  | DispatchKeydown
  | CsSetTimeout cs_callback nat
  | CsSendResponse response

text \<open>
  The script's variables; \<open>port\<close> is \<open>True\<close> when the variable holds a port
  (is not \<open>null\<close>), \<open>isMutedObserver\<close> when it holds an observer.
\<close>

record content =
  muted :: bool
  port :: bool
  isMutedObserver :: bool
  waitingForMuteButton :: bool
  cs_trace :: "cs_effect list"

subsection \<open>Reading the page and reporting\<close>

text \<open>
  \<open>isMuted()\<close> calls \<open>getAttribute\<close> on the result of \<open>querySelector\<close>: with no
  element it throws a \<open>TypeError\<close>, here \<open>None\<close>.
\<close>

fun cs_isMuted :: "dom \<Rightarrow> bool option" where
  "cs_isMuted None = None"
| "cs_isMuted (Some dataIsMuted) = Some (dataIsMuted = ''true'')"

text \<open>\<open>throws\<close> says that \<open>port.postMessage\<close> throws.\<close>

definition sendMessageToBackground :: "bool \<Rightarrow> msg \<Rightarrow> content \<Rightarrow> content" where
  "sendMessageToBackground throws m s =
     (if port s
      then (if throws
            then s\<lparr>cs_trace := cs_trace s @ [PortPostMessageThrew m, RuntimeSendMessage m]\<rparr>
            else s\<lparr>cs_trace := cs_trace s @ [PortPostMessage m]\<rparr>)
      else s\<lparr>cs_trace := cs_trace s @ [RuntimeSendMessage m]\<rparr>)"

text \<open>\<open>newValue\<close> is \<open>None\<close> when the argument is \<open>undefined\<close>.\<close>

definition updateMuted :: "bool \<Rightarrow> bool option \<Rightarrow> dom \<Rightarrow> content \<Rightarrow> content" where
  "updateMuted throws newValue d s =
     (case d of
        None \<Rightarrow> s
      | Some dataIsMuted \<Rightarrow>
          (case (case newValue of Some b \<Rightarrow> Some b | None \<Rightarrow> cs_isMuted d) of
             None \<Rightarrow> s
           | Some b \<Rightarrow>
               sendMessageToBackground throws
                 \<lparr>message = (if b then ''muted'' else ''unmuted''), finalState = True\<rparr>
                 (s\<lparr>muted := b\<rparr>)))"

text \<open>The callback of the attribute observer; \<open>attr\<close> is the new attribute value.\<close>

definition isMutedObserver_callback :: "bool \<Rightarrow> string \<Rightarrow> dom \<Rightarrow> content \<Rightarrow> content" where
  "isMutedObserver_callback throws attr d s =
     (let newValue = (attr = ''true'')
      in if newValue \<noteq> muted s then updateMuted throws (Some newValue) d s else s)"

subsection \<open>Waiting for the mute button\<close>

definition waitForMuteButton_then :: "bool \<Rightarrow> dom \<Rightarrow> content \<Rightarrow> content" where
  "waitForMuteButton_then throws d s =
     (let s1 = s\<lparr>waitingForMuteButton := False\<rparr>;
          s2 = updateMuted throws None d s1;
          s3 = s2\<lparr>isMutedObserver := True\<rparr>
      in sendMessageToBackground throws \<lparr>message = ''mute_button_found'', finalState = False\<rparr> s3)"

definition waitForMuteButton_catch :: "bool \<Rightarrow> content \<Rightarrow> content" where
  "waitForMuteButton_catch throws s =
     (sendMessageToBackground throws \<lparr>message = ''disconnected'', finalState = False\<rparr> s)
       \<lparr>waitingForMuteButton := False\<rparr>"

text \<open>
  One run of \<open>waitForContainerElement\<close>. \<open>reject\<close> does not return: the function
  goes on to poll again or to call \<open>resolve\<close>, which a settled promise ignores.
\<close>

definition waitForContainerElement :: "bool \<Rightarrow> nat \<Rightarrow> bool \<Rightarrow> dom \<Rightarrow> content \<Rightarrow> content" where
  "waitForContainerElement throws timeout settled d s =
     (let timeout' = timeout + 100;
          rejected = (timeout' \<ge> 5000)
      in case d of
           None \<Rightarrow>
             (let s1 = s\<lparr>cs_trace := cs_trace s @
                           [CsSetTimeout (WaitForContainerElement timeout' (settled \<or> rejected)) 100]\<rparr>
              in if rejected \<and> \<not> settled then waitForMuteButton_catch throws s1 else s1)
         | Some dataIsMuted \<Rightarrow>
             if settled then s
             else if rejected then waitForMuteButton_catch throws s
             else waitForMuteButton_then throws d s)"

definition waitForMuteButton :: "bool \<Rightarrow> dom \<Rightarrow> content \<Rightarrow> content" where
  "waitForMuteButton throws d s =
     (if waitingForMuteButton s then s
      else waitForContainerElement throws 0 False d (s\<lparr>waitingForMuteButton := True\<rparr>))"

subsection \<open>Commands\<close>

text \<open>\<open>request\<close> is \<open>None\<close> when the argument is \<open>null\<close> or \<open>undefined\<close>.\<close>

definition handleMessage :: "bool \<Rightarrow> request option \<Rightarrow> dom \<Rightarrow> content \<Rightarrow> response \<times> content" where
  "handleMessage throws req d s =
     (case d of
        Some dataIsMuted \<Rightarrow>
          (case cs_isMuted d of
             None \<Rightarrow> (ErrorResponse, s)
           | Some b \<Rightarrow>
               (let s1 = s\<lparr>muted := b\<rparr>;
                    s2 = (case req of
                            None \<Rightarrow> s1
                          | Some r \<Rightarrow>
                              if action r = ''toggleMute''
                              then s1\<lparr>muted := \<not> muted s1,
                                      cs_trace := cs_trace s1 @
                                        [DispatchKeydown, CsSetTimeout QuickCheck 50]\<rparr>
                              else s1)
                in (StateResponse (if muted s2 then ''muted'' else ''unmuted''), s2)))
      | None \<Rightarrow> (MuteButtonNotFound, waitForMuteButton throws d s))"

text \<open>
  The two listeners that receive commands: the port's listener drops the value
  \<open>handleMessage\<close> returns, the one-shot listener passes it to \<open>sendResponse\<close>.
\<close>

definition cs_port_onMessage :: "bool \<Rightarrow> request option \<Rightarrow> dom \<Rightarrow> content \<Rightarrow> content" where
  "cs_port_onMessage throws req d s = snd (handleMessage throws req d s)"

definition cs_runtime_onMessage :: "bool \<Rightarrow> request option \<Rightarrow> dom \<Rightarrow> content \<Rightarrow> content" where
  "cs_runtime_onMessage throws req d s =
     (let (resp, s1) = handleMessage throws req d s
      in s1\<lparr>cs_trace := cs_trace s1 @ [CsSendResponse resp]\<rparr>)"

text \<open>
  What a timer of the content script does when it fires, with the page as it is
  then. The two checks call \<open>isMuted()\<close> outside any \<open>try\<close>: with no element the
  callback ends there.
\<close>

fun cs_timerFired :: "bool \<Rightarrow> cs_callback \<Rightarrow> dom \<Rightarrow> content \<Rightarrow> content" where
  "cs_timerFired throws QuickCheck d s =
     (case cs_isMuted d of
        None \<Rightarrow> s
      | Some quickCheckState \<Rightarrow>
          s\<lparr>cs_trace := cs_trace s @ [CsSetTimeout (FinalCheck quickCheckState) 200]\<rparr>)"
| "cs_timerFired throws (FinalCheck quickCheckState) d s =
     (case cs_isMuted d of
        None \<Rightarrow> s
      | Some finalCheckState \<Rightarrow> updateMuted throws (Some finalCheckState) d s)"
| "cs_timerFired throws (WaitForContainerElement timeout settled) d s =
     waitForContainerElement throws timeout settled d s"

text \<open>The messages a trace of the content script hands to the background, in order.\<close>

fun reported :: "cs_effect list \<Rightarrow> msg list" where
  "reported [] = []"
| "reported (PortPostMessage m # es) = m # reported es"
| "reported (RuntimeSendMessage m # es) = m # reported es"
| "reported (e # es) = reported es"

definition attached :: content where
  "attached =
     \<lparr>muted = False, port = True, isMutedObserver = True, waitingForMuteButton = False,
      cs_trace = []\<rparr>"

section \<open>Properties of the background\<close>

lemma setGlobalBadge_fields [simp]:
  "activeMeetTabs (setGlobalBadge a b c s) = activeMeetTabs s"
  "globalMuteState (setGlobalBadge a b c s) = globalMuteState s"
  "storage (setGlobalBadge a b c s) = storage s"
  "badge (setGlobalBadge a b c s) = \<lparr>badgeText = a, badgeColor = b, title = c\<rparr>"
  "trace (setGlobalBadge a b c s) = trace s @ [SetGlobalBadge a b c]"
  by (simp_all add: setGlobalBadge_def)

lemma updateAllTabsBadge_fields [simp]:
  "activeMeetTabs (updateAllTabsBadge s) = activeMeetTabs s"
  "globalMuteState (updateAllTabsBadge s) = globalMuteState s"
  "storage (updateAllTabsBadge s) = storage s"
  by (simp_all add: updateAllTabsBadge_def)

subsection \<open>Registration and the flag \<open>hasMeetTab\<close>\<close>

lemma run_registry_ops_append:
  "run_registry_ops (xs @ ys) s = run_registry_ops ys (run_registry_ops xs s)"
  by (induction xs arbitrary: s) simp_all

lemma apply_registry_op_exact:
  assumes "hasMeetTab (globalMuteState s) \<longrightarrow> activeMeetTabs s \<noteq> []"
  shows "hasMeetTab (globalMuteState (apply_registry_op x s)) =
           (hasMeetTab (globalMuteState s) \<and> activeMeetTabs (apply_registry_op x s) \<noteq> [])"
  using assms
  by (cases x) (auto simp: runtime_onConnect_def tabs_onRemoved_def port_onDisconnect_def Let_def)

lemma run_registry_ops_inv:
  assumes "hasMeetTab (globalMuteState s) \<longrightarrow> activeMeetTabs s \<noteq> []"
  shows "hasMeetTab (globalMuteState (run_registry_ops ops s)) \<longrightarrow>
           activeMeetTabs (run_registry_ops ops s) \<noteq> []"
  using assms
proof (induction ops arbitrary: s)
  case Nil
  then show ?case by simp
next
  case (Cons x xs)
  have "hasMeetTab (globalMuteState (apply_registry_op x s)) \<longrightarrow>
          activeMeetTabs (apply_registry_op x s) \<noteq> []"
    using apply_registry_op_exact [OF Cons.prems, of x] by simp
  from Cons.IH [OF this] show ?case by simp
qed

text \<open>
  C1 (as amended). Take any sequence of register and unregister operations (a
  channel connecting, a tab being removed, a channel disconnecting), started in a
  state where \<open>hasMeetTab\<close> implies a non-empty \<open>activeMeetTabs\<close> (as in the
  initial state). After each operation \<open>hasMeetTab\<close> is true if and only if it
  was true before that operation and \<open>activeMeetTabs\<close> is non-empty after it: the
  flag is cleared exactly when the registry becomes empty, kept while a session
  remains, and never set by registering. So after each operation a true
  \<open>hasMeetTab\<close> implies a non-empty registry, and not the other way round.
\<close>

theorem registry_ops_hasMeetTab:
  assumes "hasMeetTab (globalMuteState s) \<longrightarrow> activeMeetTabs s \<noteq> []"
  shows "hasMeetTab (globalMuteState (run_registry_ops (ops @ [x]) s)) =
           (hasMeetTab (globalMuteState (run_registry_ops ops s)) \<and>
            activeMeetTabs (run_registry_ops (ops @ [x]) s) \<noteq> []) \<and>
         (hasMeetTab (globalMuteState (run_registry_ops ops s)) \<longrightarrow>
            activeMeetTabs (run_registry_ops ops s) \<noteq> [])"
proof -
  have inv: "hasMeetTab (globalMuteState (run_registry_ops ops s)) \<longrightarrow>
            activeMeetTabs (run_registry_ops ops s) \<noteq> []"
    using assms by (rule run_registry_ops_inv)
  have "run_registry_ops (ops @ [x]) s = apply_registry_op x (run_registry_ops ops s)"
    by (simp add: run_registry_ops_append)
  with apply_registry_op_exact [OF inv, of x] inv show ?thesis by simp
qed

theorem registry_ops_hasMeetTab_witness:
  "hasMeetTab (globalMuteState (run_registry_ops [Register 3 30, TabRemoved 1] two_sessions)) \<and>
   activeMeetTabs (run_registry_ops [Register 3 30, TabRemoved 1] two_sessions) = [(2, 20), (3, 30)] \<and>
   \<not> hasMeetTab (globalMuteState
        (run_registry_ops [TabRemoved 1, ChannelDisconnected 2] two_sessions)) \<and>
   activeMeetTabs (run_registry_ops [TabRemoved 1, ChannelDisconnected 2] two_sessions) = [] \<and>
   \<not> hasMeetTab (globalMuteState
        (run_registry_ops [TabRemoved 1, ChannelDisconnected 2, Register 4 40] two_sessions))"
  using registry_ops_hasMeetTab [of two_sessions "[Register 3 30]" "TabRemoved 1"]
        registry_ops_hasMeetTab [of two_sessions "[TabRemoved 1]" "ChannelDisconnected 2"]
        registry_ops_hasMeetTab
          [of two_sessions "[TabRemoved 1, ChannelDisconnected 2]" "Register 4 40"]
  by (simp add: two_sessions_def one_session_def runtime_onConnect_def tabs_onRemoved_def
      port_onDisconnect_def)

text \<open>
  C1 as stated fails: after one channel has connected in the initial state the map
  is non-empty and \<open>hasMeetTab\<close> is still false.
\<close>

theorem register_counterexample:
  "\<not> (hasMeetTab (globalMuteState (run_registry_ops [Register 1 10] initial)) \<longleftrightarrow>
      activeMeetTabs (run_registry_ops [Register 1 10] initial) \<noteq> [])"
  by (simp add: initial_def runtime_onConnect_def)

subsection \<open>Confirmed reports\<close>

text \<open>
  C2. A \<open>muted\<close> or \<open>unmuted\<close> message with \<open>finalState\<close> set, received
  over a session's channel or as a one-shot message from a tab, sets \<open>isMuted\<close>
  to the reported value and \<open>hasMeetTab\<close> to true whatever they were, and then
  repaints the badge, which therefore shows the reported state; the one-shot
  listener answers with \<open>sendResponse\<close> after the repaint. The registry and the
  stored preference are left as they were.
\<close>

theorem confirmed_report_sets_state:
  assumes "finalState m" and "message m = ''muted'' \<or> message m = ''unmuted''"
  shows "globalMuteState (port_onMessage t m s) =
           \<lparr>isMuted = (message m = ''muted''), hasMeetTab = True\<rparr> \<and>
         trace (port_onMessage t m s) = trace s @
           [if message m = ''muted'' then SetGlobalBadge ''M'' ''#F44336'' ''Meet: Muted''
            else SetGlobalBadge ''U'' ''#4CAF50'' ''Meet: Unmuted''] \<and>
         badge (port_onMessage t m s) =
           (if message m = ''muted''
            then \<lparr>badgeText = ''M'', badgeColor = ''#F44336'', title = ''Meet: Muted''\<rparr>
            else \<lparr>badgeText = ''U'', badgeColor = ''#4CAF50'', title = ''Meet: Unmuted''\<rparr>) \<and>
         activeMeetTabs (port_onMessage t m s) = activeMeetTabs s \<and>
         storage (port_onMessage t m s) = storage s \<and>
         globalMuteState (runtime_onMessage (Some t) m s) =
           \<lparr>isMuted = (message m = ''muted''), hasMeetTab = True\<rparr> \<and>
         trace (runtime_onMessage (Some t) m s) = trace s @
           [if message m = ''muted'' then SetGlobalBadge ''M'' ''#F44336'' ''Meet: Muted''
            else SetGlobalBadge ''U'' ''#4CAF50'' ''Meet: Unmuted'',
            SendResponse] \<and>
         badge (runtime_onMessage (Some t) m s) =
           (if message m = ''muted''
            then \<lparr>badgeText = ''M'', badgeColor = ''#F44336'', title = ''Meet: Muted''\<rparr>
            else \<lparr>badgeText = ''U'', badgeColor = ''#4CAF50'', title = ''Meet: Unmuted''\<rparr>) \<and>
         activeMeetTabs (runtime_onMessage (Some t) m s) = activeMeetTabs s \<and>
         storage (runtime_onMessage (Some t) m s) = storage s"
  using assms
  by (auto simp: port_onMessage_def runtime_onMessage_def updateAllTabsBadge_def Let_def)

theorem confirmed_report_sets_state_witness:
  "globalMuteState (port_onMessage 1 \<lparr>message = ''unmuted'', finalState = True\<rparr> initial) =
     \<lparr>isMuted = False, hasMeetTab = True\<rparr> \<and>
   trace (port_onMessage 1 \<lparr>message = ''unmuted'', finalState = True\<rparr> initial) =
     [SetGlobalBadge ''U'' ''#4CAF50'' ''Meet: Unmuted''] \<and>
   globalMuteState (runtime_onMessage (Some 1) \<lparr>message = ''muted'', finalState = True\<rparr> initial) =
     \<lparr>isMuted = True, hasMeetTab = True\<rparr> \<and>
   trace (runtime_onMessage (Some 1) \<lparr>message = ''muted'', finalState = True\<rparr> initial) =
     [SetGlobalBadge ''M'' ''#F44336'' ''Meet: Muted'', SendResponse]"
  using confirmed_report_sets_state [of "\<lparr>message = ''unmuted'', finalState = True\<rparr>" 1 initial]
        confirmed_report_sets_state [of "\<lparr>message = ''muted'', finalState = True\<rparr>" 1 initial]
  by (simp add: initial_def)

subsection \<open>Broadcast\<close>

lemma postMessages_trace:
  "trace (postMessages throws req es s) = trace s @ map (postEffect throws req) es"
  by (induction es arbitrary: s) auto

lemma postMessages_tabs:
  "activeMeetTabs (postMessages throws req es s) =
     filter (\<lambda>e. fst e \<notin> fst ` {x \<in> set es. throws (snd x)}) (activeMeetTabs s)"
proof (induction es arbitrary: s)
  case Nil
  then show ?case by simp
next
  case (Cons e es)
  obtain t p where e: "e = (t, p)" by (cases e)
  show ?case
  proof (cases "throws p")
    case True
    have "fst ` {x \<in> set ((t, p) # es). throws (snd x)} =
          insert t (fst ` {x \<in> set es. throws (snd x)})"
      using True by force
    then show ?thesis
      unfolding e using True
      by (auto simp: Cons.IH AList.delete_eq conj_commute intro!: filter_cong)
  next
    case False
    have "fst ` {x \<in> set ((t, p) # es). throws (snd x)} = fst ` {x \<in> set es. throws (snd x)}"
      using False by auto
    then show ?thesis
      unfolding e using False by (simp add: Cons.IH)
  qed
qed

lemma postMessages_other:
  "globalMuteState (postMessages throws req es s) = globalMuteState s"
  "storage (postMessages throws req es s) = storage s"
  "badge (postMessages throws req es s) = badge s"
  by (induction es arbitrary: s) auto

lemma filter_failing_distinct:
  assumes "distinct (map fst al)"
  shows "filter (\<lambda>e. fst e \<notin> fst ` {x \<in> set al. throws (snd x)}) al =
         filter (\<lambda>e. \<not> throws (snd e)) al"
proof (rule filter_cong [OF refl])
  fix e assume e: "e \<in> set al"
  show "(fst e \<notin> fst ` {x \<in> set al. throws (snd x)}) = (\<not> throws (snd e))"
  proof
    assume "fst e \<notin> fst ` {x \<in> set al. throws (snd x)}"
    with e show "\<not> throws (snd e)" by auto
  next
    assume nt: "\<not> throws (snd e)"
    show "fst e \<notin> fst ` {x \<in> set al. throws (snd x)}"
    proof
      assume "fst e \<in> fst ` {x \<in> set al. throws (snd x)}"
      then obtain x where x: "x \<in> set al" "throws (snd x)" "fst x = fst e" by auto
      have "(fst e, snd x) \<in> set al" using x by (metis prod.collapse)
      moreover have "(fst e, snd e) \<in> set al" using e by simp
      ultimately have "snd x = snd e" using assms by (rule_tac eq_key_imp_eq_value)
      with x nt show False by simp
    qed
  qed
qed

lemma tabsSendEach_trace:
  "trace (tabsSendEach req ts s) = trace s @ map (\<lambda>t. TabsSendMessage t req) ts"
  by (induction ts arbitrary: s) auto

lemma tabsSendEach_other:
  "activeMeetTabs (tabsSendEach req ts s) = activeMeetTabs s"
  "globalMuteState (tabsSendEach req ts s) = globalMuteState s"
  "storage (tabsSendEach req ts s) = storage s"
  "badge (tabsSendEach req ts s) = badge s"
  by (induction ts arbitrary: s) auto

text \<open>
  C3. With a non-empty registry (a \<open>Map\<close>, so its keys are distinct) the
  broadcast attempts \<open>postMessage\<close> on the channel of every registered session,
  in order; exactly the sessions whose channel throws are removed, and every other
  session gets the command. With an empty registry it issues the tab query for
  the Meet URL pattern and nothing else; when the query resolves with tabs, a
  one-shot message is sent to each of them and the registry stays empty, and a
  send that rejects is logged for its tab and changes nothing else.
\<close>

theorem broadcast_reaches_every_session:
  assumes "distinct (map fst (activeMeetTabs s))"
  shows "(activeMeetTabs s \<noteq> [] \<longrightarrow>
            trace (sendMessageToContentScript throws req s) =
              trace s @ map (postEffect throws req) (activeMeetTabs s) \<and>
            activeMeetTabs (sendMessageToContentScript throws req s) =
              filter (\<lambda>e. \<not> throws (snd e)) (activeMeetTabs s)) \<and>
         (activeMeetTabs s = [] \<longrightarrow>
            sendMessageToContentScript throws req s =
              s\<lparr>trace := trace s @ [TabsQuery ''https://meet.google.com/*'']\<rparr> \<and>
            (tabs \<noteq> [] \<longrightarrow>
               trace (tabsQueryThen req (Some tabs) s) =
                 trace s @ map (\<lambda>t. TabsSendMessage t req) tabs \<and>
               activeMeetTabs (tabsQueryThen req (Some tabs) s) = [])) \<and>
         tabsSendMessage_catch t u = u\<lparr>trace := trace u @ [TabsSendMessageError t]\<rparr>"
  using assms
  by (auto simp: sendMessageToContentScript_def postMessages_trace postMessages_tabs
      filter_failing_distinct tabsQueryThen_def tabsSendEach_trace tabsSendEach_other
      tabsSendMessage_catch_def)

theorem broadcast_reaches_every_session_witness:
  "trace (sendMessageToContentScript (\<lambda>p. p = 10) \<lparr>action = ''toggleMute'', req_muted = True\<rparr>
            two_sessions) =
     [PostMessageThrew 1 10, PostMessage 2 20 \<lparr>action = ''toggleMute'', req_muted = True\<rparr>] \<and>
   activeMeetTabs (sendMessageToContentScript (\<lambda>p. p = 10)
            \<lparr>action = ''toggleMute'', req_muted = True\<rparr> two_sessions) = [(2, 20)] \<and>
   trace (sendMessageToContentScript (\<lambda>p. p = 10) \<lparr>action = ''toggleMute'', req_muted = True\<rparr>
            initial) = [TabsQuery ''https://meet.google.com/*''] \<and>
   trace (tabsQueryThen \<lparr>action = ''toggleMute'', req_muted = True\<rparr> (Some [5, 6]) initial) =
     [TabsSendMessage 5 \<lparr>action = ''toggleMute'', req_muted = True\<rparr>,
      TabsSendMessage 6 \<lparr>action = ''toggleMute'', req_muted = True\<rparr>]"
  using broadcast_reaches_every_session
          [of two_sessions "\<lambda>p. p = 10" "\<lparr>action = ''toggleMute'', req_muted = True\<rparr>"]
        broadcast_reaches_every_session
          [of initial "\<lambda>p. p = 10" "\<lparr>action = ''toggleMute'', req_muted = True\<rparr>" "[5, 6]"]
  by (simp add: two_sessions_def one_session_def initial_def)

subsection \<open>The \<open>disconnected\<close> report\<close>

text \<open>
  C6 (as amended). A \<open>disconnected\<close> message over a session's channel leaves the
  registry as it is (the session stays registered) and leaves \<open>isMuted\<close> as it
  is; with at most one registered session it sets \<open>hasMeetTab\<close> to false and
  shows the disconnected badge, and with more than one it changes nothing at all.
\<close>

theorem disconnected_report_keeps_session:
  assumes "message m = ''disconnected''"
  shows "activeMeetTabs (port_onMessage t m s) = activeMeetTabs s \<and>
         isMuted (globalMuteState (port_onMessage t m s)) = isMuted (globalMuteState s) \<and>
         (length (activeMeetTabs s) \<le> 1 \<longrightarrow>
            hasMeetTab (globalMuteState (port_onMessage t m s)) = False \<and>
            badge (port_onMessage t m s) =
              \<lparr>badgeText = [], badgeColor = ''#666666'', title = ''Disconnected''\<rparr>) \<and>
         (length (activeMeetTabs s) > 1 \<longrightarrow> port_onMessage t m s = s)"
  using assms by (auto simp: port_onMessage_def updateAllTabsBadge_def)

theorem disconnected_report_keeps_session_witness:
  "activeMeetTabs (port_onMessage 1 \<lparr>message = ''disconnected'', finalState = False\<rparr> one_session) =
     [(1, 10)] \<and>
   hasMeetTab (globalMuteState
     (port_onMessage 1 \<lparr>message = ''disconnected'', finalState = False\<rparr> one_session)) = False \<and>
   port_onMessage 1 \<lparr>message = ''disconnected'', finalState = False\<rparr> two_sessions = two_sessions"
  using disconnected_report_keeps_session
          [of "\<lparr>message = ''disconnected'', finalState = False\<rparr>" 1 one_session]
        disconnected_report_keeps_session
          [of "\<lparr>message = ''disconnected'', finalState = False\<rparr>" 1 two_sessions]
  by (simp add: one_session_def two_sessions_def)

text \<open>
  C6 as stated fails: the only session reports \<open>disconnected\<close> and is still in
  the registry afterwards.
\<close>

theorem disconnected_report_counterexample:
  "1 \<in> fst ` set (activeMeetTabs
     (port_onMessage 1 \<lparr>message = ''disconnected'', finalState = False\<rparr> one_session))"
  by (simp add: port_onMessage_def one_session_def)

subsection \<open>The toggle sequence\<close>

lemma sendMessageToContentScript_other [simp]:
  "globalMuteState (sendMessageToContentScript throws req s) = globalMuteState s"
  "storage (sendMessageToContentScript throws req s) = storage s"
  "badge (sendMessageToContentScript throws req s) = badge s"
  by (simp_all add: sendMessageToContentScript_def postMessages_other)

lemma sendMessageToContentScript_trace:
  "trace (sendMessageToContentScript throws req s) = trace s @
     (if activeMeetTabs s = [] then [TabsQuery ''https://meet.google.com/*'']
      else map (postEffect throws req) (activeMeetTabs s))"
  by (simp add: sendMessageToContentScript_def postMessages_trace)

lemma simpleToggleMute_state:
  "globalMuteState (simpleToggleMute throws f s) = globalMuteState s"
  "storage (simpleToggleMute throws f s) = Some (\<not> truthy (storage s))"
  by (simp_all add: simpleToggleMute_def Let_def)

lemma simpleToggleMute_trace:
  "trace (simpleToggleMute throws f s) = trace s @
     [StorageSet (\<not> truthy (storage s))] @
     (if f then []
      else if truthy (storage s) then [SetGlobalBadge ''U'' ''#4CAF50'' ''Meet: Unmuted'']
      else [SetGlobalBadge ''M'' ''#F44336'' ''Meet: Muted'']) @
     (if activeMeetTabs s = [] then [TabsQuery ''https://meet.google.com/*'']
      else map (postEffect throws \<lparr>action = ''toggleMute'', req_muted = \<not> truthy (storage s)\<rparr>)
             (activeMeetTabs s)) @
     [SetTimeout VerificationCheck (if f then 300 else 500)]"
  by (simp add: simpleToggleMute_def Let_def sendMessageToContentScript_trace)

lemma simpleToggleMute_badge:
  "badge (simpleToggleMute throws f s) =
     (if f then badge s
      else if truthy (storage s)
      then \<lparr>badgeText = ''U'', badgeColor = ''#4CAF50'', title = ''Meet: Unmuted''\<rparr>
      else \<lparr>badgeText = ''M'', badgeColor = ''#F44336'', title = ''Meet: Muted''\<rparr>)"
  by (simp add: simpleToggleMute_def Let_def)

text \<open>
  C5 (as amended). \<open>simpleToggleMute\<close> called with \<open>fromIconClick\<close> false
  paints the badge to the requested state right after persisting it and before
  the broadcast; called with \<open>fromIconClick\<close> true it leaves the badge alone
  until the timer. The keyboard command and the icon click (with a non-empty
  registry) both call it with \<open>fromIconClick\<close> true, so neither paints
  optimistically.
\<close>

theorem optimistic_paint_only_without_icon_click:
  "badge (simpleToggleMute throws False s) =
     (if truthy (storage s)
      then \<lparr>badgeText = ''U'', badgeColor = ''#4CAF50'', title = ''Meet: Unmuted''\<rparr>
      else \<lparr>badgeText = ''M'', badgeColor = ''#F44336'', title = ''Meet: Muted''\<rparr>) \<and>
   trace (simpleToggleMute throws False s) = trace s @
     [StorageSet (\<not> truthy (storage s)),
      if truthy (storage s) then SetGlobalBadge ''U'' ''#4CAF50'' ''Meet: Unmuted''
      else SetGlobalBadge ''M'' ''#F44336'' ''Meet: Muted''] @
     (if activeMeetTabs s = [] then [TabsQuery ''https://meet.google.com/*'']
      else map (postEffect throws \<lparr>action = ''toggleMute'', req_muted = \<not> truthy (storage s)\<rparr>)
             (activeMeetTabs s)) @
     [SetTimeout VerificationCheck 500] \<and>
   badge (simpleToggleMute throws True s) = badge s \<and>
   trace (simpleToggleMute throws True s) = trace s @
     [StorageSet (\<not> truthy (storage s))] @
     (if activeMeetTabs s = [] then [TabsQuery ''https://meet.google.com/*'']
      else map (postEffect throws \<lparr>action = ''toggleMute'', req_muted = \<not> truthy (storage s)\<rparr>)
             (activeMeetTabs s)) @
     [SetTimeout VerificationCheck 300] \<and>
   commands_onCommand throws ''toggle_mute'' s = simpleToggleMute throws True s \<and>
   (activeMeetTabs s \<noteq> [] \<longrightarrow> action_onClicked throws s = simpleToggleMute throws True s)"
  by (simp add: simpleToggleMute_badge simpleToggleMute_trace commands_onCommand_def
      action_onClicked_def)

theorem optimistic_paint_only_without_icon_click_witness:
  "action_onClicked (\<lambda>p. False) one_session = simpleToggleMute (\<lambda>p. False) True one_session \<and>
   trace (simpleToggleMute (\<lambda>p. False) False (one_session\<lparr>badge := \<lparr>badgeText = ''U'', badgeColor = ''#4CAF50'', title = ''Meet: Unmuted''\<rparr>\<rparr>)) =
     [StorageSet True, SetGlobalBadge ''M'' ''#F44336'' ''Meet: Muted'',
      PostMessage 1 10 \<lparr>action = ''toggleMute'', req_muted = True\<rparr>,
      SetTimeout VerificationCheck 500] \<and>
   badge (simpleToggleMute (\<lambda>p. False) False (one_session\<lparr>badge := \<lparr>badgeText = ''U'', badgeColor = ''#4CAF50'', title = ''Meet: Unmuted''\<rparr>\<rparr>)) =
     \<lparr>badgeText = ''M'', badgeColor = ''#F44336'', title = ''Meet: Muted''\<rparr>"
  using optimistic_paint_only_without_icon_click [of "\<lambda>p. False" one_session]
        optimistic_paint_only_without_icon_click
          [of "\<lambda>p. False" "one_session\<lparr>badge := \<lparr>badgeText = ''U'', badgeColor = ''#4CAF50'', title = ''Meet: Unmuted''\<rparr>\<rparr>"]
  by (simp add: one_session_def)

text \<open>
  C5 as stated fails: on the keyboard command, with the preference \<open>false\<close> and
  the badge showing \<open>U\<close>, the handler leaves the badge at \<open>U\<close> and paints
  nothing before the timer.
\<close>

theorem keyboard_command_counterexample:
  "badge (commands_onCommand (\<lambda>p. False) ''toggle_mute'' (one_session\<lparr>badge := \<lparr>badgeText = ''U'', badgeColor = ''#4CAF50'', title = ''Meet: Unmuted''\<rparr>\<rparr>)) =
     \<lparr>badgeText = ''U'', badgeColor = ''#4CAF50'', title = ''Meet: Unmuted''\<rparr> \<and>
   trace (commands_onCommand (\<lambda>p. False) ''toggle_mute'' (one_session\<lparr>badge := \<lparr>badgeText = ''U'', badgeColor = ''#4CAF50'', title = ''Meet: Unmuted''\<rparr>\<rparr>)) =
     [StorageSet True, PostMessage 1 10 \<lparr>action = ''toggleMute'', req_muted = True\<rparr>,
      SetTimeout VerificationCheck 300]"
  by (simp add: commands_onCommand_def simpleToggleMute_def sendMessageToContentScript_def
      one_session_def Let_def)



subsection \<open>Writers of \<open>isMuted\<close>\<close>

lemma tabsQueryThen_state:
  "globalMuteState (tabsQueryThen req result s) = globalMuteState s"
  by (simp add: tabsQueryThen_def tabsSendEach_other split: option.splits)

text \<open>
  C8. Whatever event the background handles, \<open>isMuted\<close> keeps its value unless
  the event is a confirmed report (\<open>muted\<close> or \<open>unmuted\<close> with
  \<open>finalState\<close> set, over a channel or as a one-shot message from a tab). The
  toggle sequence leaves the whole aggregate state as it is and writes the stored
  preference only.
\<close>

theorem isMuted_written_by_confirmed_reports_only:
  "(confirmedReport e \<or>
      isMuted (globalMuteState (handle throws e s)) = isMuted (globalMuteState s)) \<and>
   globalMuteState (simpleToggleMute throws f s) = globalMuteState s \<and>
   storage (simpleToggleMute throws f s) = Some (\<not> truthy (storage s))"
proof -
  have "confirmedReport e \<or>
      isMuted (globalMuteState (handle throws e s)) = isMuted (globalMuteState s)"
  proof (cases e)
    case (TabsOnRemoved t)
    then show ?thesis by (simp add: tabs_onRemoved_def Let_def)
  next
    case RuntimeOnInstalled
    then show ?thesis by (simp add: runtime_onInstalled_def)
  next
    case (RuntimeOnConnect name t p)
    then show ?thesis by (simp add: runtime_onConnect_def)
  next
    case (PortOnDisconnect t)
    then show ?thesis by (simp add: port_onDisconnect_def Let_def)
  next
    case (PortOnMessage t m)
    then show ?thesis by (auto simp: port_onMessage_def)
  next
    case (RuntimeOnMessage sender m)
    then show ?thesis by (auto simp: runtime_onMessage_def Let_def split: option.splits)
  next
    case (CommandsOnCommand c)
    then show ?thesis by (simp add: commands_onCommand_def simpleToggleMute_state)
  next
    case ActionOnClicked
    then show ?thesis by (simp add: action_onClicked_def simpleToggleMute_state Let_def)
  next
    case (TimerFired cb)
    then show ?thesis by (cases cb) simp_all
  next
    case (TabsQuerySettled req result)
    then show ?thesis by (simp add: tabsQueryThen_state)
  next
    case (TabsSendMessageRejected t)
    then show ?thesis by (simp add: tabsSendMessage_catch_def)
  qed
  then show ?thesis by (simp add: simpleToggleMute_state)
qed

theorem isMuted_written_by_confirmed_reports_only_witness:
  "isMuted (globalMuteState
     (handle (\<lambda>p. False) (CommandsOnCommand ''toggle_mute'') one_session)) = True \<and>
   isMuted (globalMuteState
     (handle (\<lambda>p. False)
        (PortOnMessage 1 \<lparr>message = ''unmuted'', finalState = False\<rparr>) one_session)) = True \<and>
   storage (simpleToggleMute (\<lambda>p. False) False one_session) = Some True"
  using isMuted_written_by_confirmed_reports_only
          [of "CommandsOnCommand ''toggle_mute''" "\<lambda>p. False" one_session False]
        isMuted_written_by_confirmed_reports_only
          [of "PortOnMessage 1 \<lparr>message = ''unmuted'', finalState = False\<rparr>"
              "\<lambda>p. False" one_session False]
  by (simp add: one_session_def)

subsection \<open>Icon click without a session\<close>

text \<open>
  C9 (as amended). An icon click with an empty registry paints the amber \<open>!\<close>
  badge, sets a timer of 3000 ms and returns: no message is sent to any channel,
  no tab query is issued, and the registry, the aggregate state and the stored
  preference are unchanged. When the timer fires the badge goes to the
  disconnected appearance and nothing else changes.
\<close>

theorem icon_click_without_sessions:
  assumes "activeMeetTabs s = []"
  shows "action_onClicked throws s =
           s\<lparr>badge := \<lparr>badgeText = ''!'', badgeColor = ''#FFC107'', title = ''No active Meet tabs''\<rparr>,
             trace := trace s @ [SetGlobalBadge ''!'' ''#FFC107'' ''No active Meet tabs'',
                                 SetTimeout ClearWarning 3000]\<rparr> \<and>
         timerFired ClearWarning u =
           u\<lparr>badge := \<lparr>badgeText = [], badgeColor = ''#666666'', title = ''Disconnected''\<rparr>,
             trace := trace u @ [SetGlobalBadge [] ''#666666'' ''Disconnected'']\<rparr>"
  using assms by (simp add: action_onClicked_def setGlobalBadge_def Let_def)

theorem icon_click_without_sessions_witness:
  "trace (action_onClicked (\<lambda>p. False) initial) =
     [SetGlobalBadge ''!'' ''#FFC107'' ''No active Meet tabs'', SetTimeout ClearWarning 3000] \<and>
   globalMuteState (action_onClicked (\<lambda>p. False) initial) = globalMuteState initial \<and>
   storage (action_onClicked (\<lambda>p. False) initial) = storage initial"
  using icon_click_without_sessions [of initial "\<lambda>p. False"]
  by (simp add: initial_def)

text \<open>
  C9 as stated fails: the icon click with an empty registry issues no tab query.
\<close>

theorem icon_click_fallback_counterexample:
  "TabsQuery ''https://meet.google.com/*'' \<notin> set (trace (action_onClicked (\<lambda>p. False) initial))"
  by (simp add: action_onClicked_def setGlobalBadge_def initial_def Let_def)

section \<open>Properties of the content script\<close>

lemma reported_append: "reported (xs @ ys) = reported xs @ reported ys"
  by (induction xs rule: reported.induct) simp_all

lemma reported_sendMessageToBackground:
  "reported (cs_trace (sendMessageToBackground throws m s)) = reported (cs_trace s) @ [m]"
  by (simp add: sendMessageToBackground_def reported_append)

lemma muted_sendMessageToBackground:
  "muted (sendMessageToBackground throws m s) = muted s"
  by (simp add: sendMessageToBackground_def)

text \<open>
  C4. With the mute button on the page, a \<open>toggleMute\<close> command flips the cached
  flag, dispatches the key press and sets the 50 ms timer, reporting nothing; the
  quick check sets the 200 ms timer and reports nothing; the final check reports
  the attribute value it reads then, with \<open>finalState\<close> set, whatever the quick
  check had read, and caches that value.
\<close>

theorem final_check_is_reported:
  "snd (handleMessage throws (Some \<lparr>action = ''toggleMute'', req_muted = x\<rparr>) (Some v0) s) =
     s\<lparr>muted := (v0 \<noteq> ''true''),
       cs_trace := cs_trace s @ [DispatchKeydown, CsSetTimeout QuickCheck 50]\<rparr> \<and>
   cs_timerFired throws QuickCheck (Some v1) s1 =
     s1\<lparr>cs_trace := cs_trace s1 @ [CsSetTimeout (FinalCheck (v1 = ''true'')) 200]\<rparr> \<and>
   reported (cs_trace (cs_timerFired throws (FinalCheck q) (Some v2) s2)) =
     reported (cs_trace s2) @
       [\<lparr>message = (if v2 = ''true'' then ''muted'' else ''unmuted''), finalState = True\<rparr>] \<and>
   muted (cs_timerFired throws (FinalCheck q) (Some v2) s2) = (v2 = ''true'')"
proof -
  have "snd (handleMessage throws (Some \<lparr>action = ''toggleMute'', req_muted = x\<rparr>) (Some v0) s) =
     s\<lparr>muted := (v0 \<noteq> ''true''),
       cs_trace := cs_trace s @ [DispatchKeydown, CsSetTimeout QuickCheck 50]\<rparr>"
    by (simp add: handleMessage_def)
  moreover have "cs_timerFired throws QuickCheck (Some v1) s1 =
     s1\<lparr>cs_trace := cs_trace s1 @ [CsSetTimeout (FinalCheck (v1 = ''true'')) 200]\<rparr>"
    by simp
  moreover have "reported (cs_trace (cs_timerFired throws (FinalCheck q) (Some v2) s2)) =
     reported (cs_trace s2) @
       [\<lparr>message = (if v2 = ''true'' then ''muted'' else ''unmuted''), finalState = True\<rparr>]"
    by (simp add: updateMuted_def reported_sendMessageToBackground)
  moreover have "muted (cs_timerFired throws (FinalCheck q) (Some v2) s2) = (v2 = ''true'')"
    by (simp add: updateMuted_def muted_sendMessageToBackground)
  ultimately show ?thesis by blast
qed

theorem final_check_is_reported_witness:
  "reported (cs_trace (cs_timerFired False (FinalCheck True) (Some ''false'')
      (cs_timerFired False QuickCheck (Some ''true'')
         (snd (handleMessage False (Some \<lparr>action = ''toggleMute'', req_muted = True\<rparr>)
                 (Some ''false'') attached))))) =
     [\<lparr>message = ''unmuted'', finalState = True\<rparr>] \<and>
   cs_trace (cs_timerFired False QuickCheck (Some ''true'')
         (snd (handleMessage False (Some \<lparr>action = ''toggleMute'', req_muted = True\<rparr>)
                 (Some ''false'') attached))) =
     [DispatchKeydown, CsSetTimeout QuickCheck 50, CsSetTimeout (FinalCheck True) 200]"
proof -
  have A: "snd (handleMessage False (Some \<lparr>action = ''toggleMute'', req_muted = True\<rparr>)
                 (Some ''false'') attached) =
           attached\<lparr>muted := True,
                    cs_trace := cs_trace attached @ [DispatchKeydown, CsSetTimeout QuickCheck 50]\<rparr>"
    using final_check_is_reported [of False True "''false''" attached] by simp
  have B: "cs_timerFired False QuickCheck (Some ''true'') s1 =
           s1\<lparr>cs_trace := cs_trace s1 @ [CsSetTimeout (FinalCheck True) 200]\<rparr>" for s1
    using final_check_is_reported [of False True "''false''" attached "''true''" s1] by simp
  have C: "reported (cs_trace (cs_timerFired False (FinalCheck True) (Some ''false'') s2)) =
           reported (cs_trace s2) @ [\<lparr>message = ''unmuted'', finalState = True\<rparr>]" for s2
    using final_check_is_reported
            [of False True "''false''" attached "''true''" attached True "''false''" s2]
    by simp
  show ?thesis unfolding C B A by (simp add: attached_def)
qed

text \<open>
  C10. Two commands with the same \<open>action\<close> that differ in their \<open>muted\<close>
  payload give the same response and the same state of the content script,
  scheduled timers and sent messages included, through \<open>handleMessage\<close> and
  through either listener. For \<open>toggleMute\<close> with the mute
  button on the page, the cached flag and the response come from the attribute
  read from the page, negated.
\<close>

theorem handleMessage_ignores_muted_payload:
  assumes "action r1 = action r2"
  shows "handleMessage throws (Some r1) d s = handleMessage throws (Some r2) d s \<and>
         cs_port_onMessage throws (Some r1) d s = cs_port_onMessage throws (Some r2) d s \<and>
         cs_runtime_onMessage throws (Some r1) d s = cs_runtime_onMessage throws (Some r2) d s \<and>
         (action r1 = ''toggleMute'' \<longrightarrow>
            muted (snd (handleMessage throws (Some r1) (Some v) s)) = (v \<noteq> ''true'') \<and>
            fst (handleMessage throws (Some r1) (Some v) s) =
              StateResponse (if v = ''true'' then ''unmuted'' else ''muted''))"
proof -
  have eq: "handleMessage throws (Some r1) d s = handleMessage throws (Some r2) d s"
    using assms by (simp add: handleMessage_def split: option.splits)
  have "action r1 = ''toggleMute'' \<longrightarrow>
            muted (snd (handleMessage throws (Some r1) (Some v) s)) = (v \<noteq> ''true'') \<and>
            fst (handleMessage throws (Some r1) (Some v) s) =
              StateResponse (if v = ''true'' then ''unmuted'' else ''muted'')"
    by (simp add: handleMessage_def)
  with eq show ?thesis
    by (simp add: cs_port_onMessage_def cs_runtime_onMessage_def)
qed

theorem handleMessage_ignores_muted_payload_witness:
  "handleMessage False (Some \<lparr>action = ''toggleMute'', req_muted = True\<rparr>) (Some ''false'') attached =
   handleMessage False (Some \<lparr>action = ''toggleMute'', req_muted = False\<rparr>) (Some ''false'') attached \<and>
   muted (snd (handleMessage False (Some \<lparr>action = ''toggleMute'', req_muted = False\<rparr>)
     (Some ''false'') attached)) = True"
  using handleMessage_ignores_muted_payload
    [of "\<lparr>action = ''toggleMute'', req_muted = True\<rparr>"
        "\<lparr>action = ''toggleMute'', req_muted = False\<rparr>" False "Some ''false''" attached "''false''"]
        handleMessage_ignores_muted_payload
    [of "\<lparr>action = ''toggleMute'', req_muted = False\<rparr>"
        "\<lparr>action = ''toggleMute'', req_muted = True\<rparr>" False "Some ''false''" attached "''false''"]
  by simp

end
